theory Spec2Isabelle
  imports Main "HOL-Library.AList"
begin

section \<open>Python values, entities and metadata\<close>

text \<open>
  Object identity (\<^verbatim>\<open>id(obj)\<close>) is a heap address; a class is named by its
  \<^verbatim>\<open>__name__\<close>.
\<close>

type_synonym ref = nat
type_synonym class_name = string

text \<open>\<^verbatim>\<open>metadata.py\<close>: the three dataclasses.  \<^verbatim>\<open>Optional[Callable]\<close> fields are
  only ever tested for being \<^verbatim>\<open>None\<close>, so a callable is represented by its name.\<close>

record PropertyMetadata =
  prop_python_name :: string
  graph_name :: string
  python_type :: string
  converter :: "string option"
  required :: bool
  is_id :: bool
  id_generator :: "string option"
  interned :: bool

record RelationshipMetadata =
  rel_python_name :: string
  relationship_type :: string
  direction :: string
  target_class :: "class_name option"
  target_class_name :: "string option"
  is_collection :: bool
  lazy :: bool
  cascade :: bool

record EntityMetadata =
  entity_class :: class_name
  labels :: "string list"
  primary_label :: string
  properties :: "PropertyMetadata list"
  id_property :: "PropertyMetadata option"
  relationships :: "RelationshipMetadata list"

text \<open>\<^verbatim>\<open>relationships.py\<close>: the state of the two loading proxies
  (\<^verbatim>\<open>_graph\<close>, \<^verbatim>\<open>_mapper\<close> and \<^verbatim>\<open>_query_builder\<close> are passed to the operations instead
  of being stored).\<close>

record LazyList =
  ll_source_id :: int
  ll_relationship_meta :: RelationshipMetadata
  ll_entity_class :: class_name
  ll_loaded :: bool
  ll_items :: "ref list"

record LazySingle =
  ls_source_id :: int
  ls_relationship_meta :: RelationshipMetadata
  ls_entity_class :: class_name
  ls_loaded :: bool
  ls_item :: "ref option"

text \<open>
  The Python values the engine meets: attribute values of entities, query parameters and
  the cells of result rows.  \<open>PNode i l ps\<close> is a node object of the store's client
  library (\<^verbatim>\<open>node.id\<close>, its labels, \<^verbatim>\<open>node.properties\<close>); \<open>POther t\<close> is an object
  of any other type \<open>t\<close> (a set, a generator, \dots).
\<close>

datatype pyobj =
    PNone
  | PInt int
  | PStr string
  | PBool bool
  | PEntity ref
  | PList "pyobj list"
  | PTuple "pyobj list"
  | PLazyList LazyList
  | PLazySingle LazySingle
  | PNode "int option" string "(string \<times> pyobj) list"
  | POther string

text \<open>An entity instance: its class and its attributes; \<open>getattr\<close> is
  \<^verbatim>\<open>getattr(entity, name, None)\<close>, so an attribute never set reads as \<open>PNone\<close>.\<close>

record Entity =
  cls :: class_name
  attrs :: "string \<Rightarrow> pyobj"

definition getattr :: "Entity \<Rightarrow> string \<Rightarrow> pyobj" where
  "getattr e name = attrs e name"

definition setattr :: "Entity \<Rightarrow> string \<Rightarrow> pyobj \<Rightarrow> Entity" where
  "setattr e name v = e\<lparr>attrs := (attrs e)(name := v)\<rparr>"

datatype error =
    StoreError string
  | InvalidEntityException string
  | MappingException string "error option"
  | ValueError string
  | IndexError
  | KeyError string
  | TypeError string
  | AttributeError string
  | QueryException error

text \<open>
  What the engine takes from its surroundings: the \<^verbatim>\<open>__node_metadata__\<close> attribute the
  \<^verbatim>\<open>@node\<close> decorator leaves on a class (\<open>None\<close> on an undecorated class), the value
  converters of \<^verbatim>\<open>types.py\<close> (a property's own converter or the type registry's), and
  whether the user's constructor rejects a set of keyword arguments.
\<close>

record Runtime =
  node_metadata :: "class_name \<Rightarrow> EntityMetadata option"
  to_graph :: "PropertyMetadata \<Rightarrow> pyobj \<Rightarrow> pyobj"
  from_graph :: "PropertyMetadata \<Rightarrow> pyobj \<Rightarrow> pyobj"
  init_raises :: "class_name \<Rightarrow> (string \<times> pyobj) list \<Rightarrow> bool"

type_synonym dict = "(string \<times> pyobj) list"

definition dict_get :: "dict \<Rightarrow> string \<Rightarrow> pyobj \<Rightarrow> pyobj" where
  "dict_get d k dflt = (case map_of d k of None \<Rightarrow> dflt | Some v \<Rightarrow> v)"

definition dict_has :: "dict \<Rightarrow> string \<Rightarrow> bool" where
  "dict_has d k = (map_of d k \<noteq> None)"

section \<open>Entity metadata (\<^verbatim>\<open>metadata.py\<close>)\<close>

definition get_entity_metadata :: "Runtime \<Rightarrow> class_name \<Rightarrow> error + EntityMetadata" where
  "get_entity_metadata rt c =
     (case node_metadata rt c of
        None \<Rightarrow> Inl (InvalidEntityException c)
      | Some md \<Rightarrow> Inr md)"

definition is_relationship_field :: "EntityMetadata \<Rightarrow> string \<Rightarrow> bool" where
  "is_relationship_field md name = list_ex (\<lambda>rel. rel_python_name rel = name) (relationships md)"


section \<open>Serialising an entity (\<^verbatim>\<open>mapper.py\<close>)\<close>

text \<open>The loop of \<^verbatim>\<open>EntityMapper.map_to_properties\<close> over \<^verbatim>\<open>metadata.properties\<close>;
  the dictionary being filled is the accumulator.\<close>

fun map_to_properties_loop ::
  "Runtime \<Rightarrow> EntityMetadata \<Rightarrow> Entity \<Rightarrow> PropertyMetadata list \<Rightarrow> dict \<Rightarrow> dict" where
  "map_to_properties_loop rt md entity [] props = props"
| "map_to_properties_loop rt md entity (prop # rest) props =
     (if is_relationship_field md (prop_python_name prop)
      then map_to_properties_loop rt md entity rest props
      else if is_id prop \<and> id_generator prop \<noteq> None
                \<and> getattr entity (prop_python_name prop) = PNone
      then map_to_properties_loop rt md entity rest props
      else (let v = getattr entity (prop_python_name prop) in
            if v \<noteq> PNone
            then map_to_properties_loop rt md entity rest
                   (AList.update (graph_name prop) (to_graph rt prop v) props)
            else map_to_properties_loop rt md entity rest props))"

definition map_to_properties :: "Runtime \<Rightarrow> Entity \<Rightarrow> error + dict" where
  "map_to_properties rt entity =
     (case get_entity_metadata rt (cls entity) of
        Inl e \<Rightarrow> Inl e
      | Inr md \<Rightarrow> Inr (map_to_properties_loop rt md entity (properties md) []))"

text \<open>A \<^verbatim>\<open>SET\<close> clause \<^verbatim>\<open>n.<graph_name> = $<param>\<close>, or
  \<^verbatim>\<open>n.<graph_name> = intern($<param>)\<close> for an interned string property.\<close>

datatype set_clause = SetParam string string | SetInterned string string

fun is_str :: "pyobj \<Rightarrow> bool" where
  "is_str (PStr s) = True"
| "is_str v = False"

definition set_clause_for :: "PropertyMetadata \<Rightarrow> pyobj \<Rightarrow> set_clause" where
  "set_clause_for prop v =
     (let param_name = ''prop_'' @ graph_name prop in
      if interned prop \<and> is_str v then SetInterned (graph_name prop) param_name
      else SetParam (graph_name prop) param_name)"

text \<open>The loop shared by \<^verbatim>\<open>map_to_cypher_create\<close> and \<^verbatim>\<open>map_to_cypher_merge\<close>; the merge
  variant (\<open>skip_id\<close>) passes over the id property.\<close>

fun set_clauses_loop ::
  "bool \<Rightarrow> dict \<Rightarrow> PropertyMetadata list \<Rightarrow> set_clause list \<times> dict \<Rightarrow> set_clause list \<times> dict" where
  "set_clauses_loop skip_id props [] acc = acc"
| "set_clauses_loop skip_id props (prop # rest) (set_clauses, params) =
     (if skip_id \<and> is_id prop then set_clauses_loop skip_id props rest (set_clauses, params)
      else if dict_has props (prop_python_name prop) \<or> dict_has props (graph_name prop)
      then (let v = dict_get props (graph_name prop) (dict_get props (prop_python_name prop) PNone)
            in set_clauses_loop skip_id props rest
                 (set_clauses @ [set_clause_for prop v],
                  AList.update (''prop_'' @ graph_name prop) v params))
      else set_clauses_loop skip_id props rest (set_clauses, params))"

text \<open>\<^verbatim>\<open>":".join(labels)\<close>\<close>

fun join :: "string \<Rightarrow> string list \<Rightarrow> string" where
  "join sep [] = []"
| "join sep [x] = x"
| "join sep (x # y # ys) = x @ sep @ join sep (y # ys)"

text \<open>
  The statements the builders emit, as abstract syntax: each constructor stands for one
  of the f-string templates and carries exactly the pieces interpolated into it.
\<close>

datatype rel_pattern = Outgoing string | Incoming string | Undirected string

datatype return_part = ReturnVar string | CollectDistinctAs string string

datatype cypher =
    CreateNode string "set_clause list"
  | MergeNode string "set_clause list"
  | CreateEdge rel_pattern
  | DeleteEdges rel_pattern
  | MatchRelated rel_pattern string
  | MatchById string bool
  | MatchAll string
  | EagerLoad string "bool option" "(string \<times> rel_pattern \<times> string) list" "return_part list"

type_synonym query = "cypher \<times> dict"

definition map_to_cypher_create :: "Runtime \<Rightarrow> Entity \<Rightarrow> error + query" where
  "map_to_cypher_create rt entity =
     (case get_entity_metadata rt (cls entity) of
        Inl e \<Rightarrow> Inl e
      | Inr md \<Rightarrow>
         (case map_to_properties rt entity of
            Inl e \<Rightarrow> Inl e
          | Inr props \<Rightarrow>
             (case set_clauses_loop False props (properties md) ([], []) of
                (set_clauses, params) \<Rightarrow>
                  Inr (CreateNode (join '':'' (labels md)) set_clauses, params))))"

definition map_to_cypher_merge :: "Runtime \<Rightarrow> Entity \<Rightarrow> error + query" where
  "map_to_cypher_merge rt entity =
     (case get_entity_metadata rt (cls entity) of
        Inl e \<Rightarrow> Inl e
      | Inr md \<Rightarrow>
         (case id_property md of
            None \<Rightarrow> Inl (MappingException ''has no ID property'' None)
          | Some idp \<Rightarrow>
             (let entity_id = getattr entity (prop_python_name idp) in
              if entity_id = PNone then Inl (MappingException ''has no ID value'' None)
              else (case map_to_properties rt entity of
                      Inl e \<Rightarrow> Inl e
                    | Inr props \<Rightarrow>
                       (case set_clauses_loop True props (properties md) ([], [(''id'', entity_id)]) of
                          (set_clauses, params) \<Rightarrow>
                            Inr (MergeNode (join '':'' (labels md)) set_clauses, params))))))"

section \<open>The graph store\<close>

text \<open>
  \<^verbatim>\<open>graph.query(cypher, params)\<close> is the engine's only access to the store.  A graph
  handle is any function from a statement and the store's state to a result set (or an
  error raised) and the next state.  A result row is a list of cells, as the client
  library returns it, or a dictionary keyed by column name.
\<close>

datatype row = ListRecord "pyobj list" | DictRecord "(string \<times> pyobj) list"

record Store =
  nodes :: "(int \<times> string \<times> dict) list"
  edges :: "(int \<times> string \<times> int) list"
  next_id :: int

type_synonym graph = "query \<Rightarrow> Store \<Rightarrow> (error + row list) \<times> Store"

text \<open>
  The world the engine runs in: the objects, the store behind the graph handle, and a
  journal of every call of \<^verbatim>\<open>graph.query\<close> in order, each with the error it raised
  (\<open>None\<close> when it returned).
\<close>

record world =
  heap :: "ref \<Rightarrow> Entity"
  next_ref :: ref
  store :: Store
  queries :: "(query \<times> error option) list"

definition graph_query :: "graph \<Rightarrow> query \<Rightarrow> world \<Rightarrow> (error + row list) \<times> world" where
  "graph_query g q w =
     (case g q (store w) of
        (Inl e, s') \<Rightarrow> (Inl e, w\<lparr>store := s', queries := queries w @ [(q, Some e)]\<rparr>)
      | (Inr rows, s') \<Rightarrow> (Inr rows, w\<lparr>store := s', queries := queries w @ [(q, None)]\<rparr>))"

text \<open>\<^verbatim>\<open>record[i]\<close> on a result row.\<close>

fun row_index :: "row \<Rightarrow> nat \<Rightarrow> error + pyobj" where
  "row_index (ListRecord cells) i = (if i < length cells then Inr (cells ! i) else Inl IndexError)"
| "row_index (DictRecord d) i = Inl (KeyError ''integer key'')"

section \<open>Relationship statements (\<^verbatim>\<open>query_builder.py\<close>)\<close>

text \<open>The \<^verbatim>\<open>if\<close>/\<^verbatim>\<open>elif\<close> chain on \<^verbatim>\<open>direction\<close> that the load and create builders
  share; the last branch raises.\<close>

definition rel_pattern_of :: "RelationshipMetadata \<Rightarrow> error + rel_pattern" where
  "rel_pattern_of rel_meta =
     (if direction rel_meta = ''OUTGOING'' then Inr (Outgoing (relationship_type rel_meta))
      else if direction rel_meta = ''INCOMING'' then Inr (Incoming (relationship_type rel_meta))
      else if direction rel_meta = ''BOTH'' then Inr (Undirected (relationship_type rel_meta))
      else Inl (ValueError (''Invalid direction: '' @ direction rel_meta)))"

definition build_relationship_create_query ::
  "RelationshipMetadata \<Rightarrow> pyobj \<Rightarrow> pyobj \<Rightarrow> error + query" where
  "build_relationship_create_query rel_meta source_id target_id =
     (case rel_pattern_of rel_meta of
        Inl e \<Rightarrow> Inl e
      | Inr pat \<Rightarrow> Inr (CreateEdge pat, [(''source_id'', source_id), (''target_id'', target_id)]))"

text \<open>
  Modelled from the spec: \<^verbatim>\<open>QueryBuilder.build_relationship_delete_query\<close> is called by
  \<^verbatim>\<open>RelationshipManager._delete_relationship_edges\<close> but is not defined in
  \<^verbatim>\<open>query_builder.py\<close>.  The spec: ``delete all existing edges matching (source_id, this
  relationship's edge-type and direction)''.
\<close>

definition build_relationship_delete_query ::
  "RelationshipMetadata \<Rightarrow> pyobj \<Rightarrow> error + query" where
  "build_relationship_delete_query rel_meta source_id =
     (case rel_pattern_of rel_meta of
        Inl e \<Rightarrow> Inl e
      | Inr pat \<Rightarrow> Inr (DeleteEdges pat, [(''source_id'', source_id)]))"


section \<open>Saving relationships (\<^verbatim>\<open>relationships.py\<close>, \<^verbatim>\<open>repository.py\<close>)\<close>

record RelationshipManager =
  entity_tracker :: "(ref \<times> pyobj) set"

record Repository =
  repo_entity_class :: class_name
  metadata :: EntityMetadata
  relationship_manager :: RelationshipManager

definition RelationshipManager_init :: RelationshipManager where
  "RelationshipManager_init = \<lparr>entity_tracker = {}\<rparr>"

definition Repository_init :: "Runtime \<Rightarrow> class_name \<Rightarrow> error + Repository" where
  "Repository_init rt c =
     (case get_entity_metadata rt c of
        Inl e \<Rightarrow> Inl e
      | Inr md \<Rightarrow> Inr \<lparr>repo_entity_class = c, metadata = md,
                       relationship_manager = RelationshipManager_init\<rparr>)"

definition update_entity_id :: "Runtime \<Rightarrow> ref \<Rightarrow> pyobj \<Rightarrow> world \<Rightarrow> error + world" where
  "update_entity_id rt e node_id w =
     (case get_entity_metadata rt (cls (heap w e)) of
        Inl err \<Rightarrow> Inl err
      | Inr md \<Rightarrow>
         (case id_property md of
            None \<Rightarrow> Inr w
          | Some idp \<Rightarrow>
              Inr (w\<lparr>heap := (heap w)(e := setattr (heap w e) (prop_python_name idp) node_id)\<rparr>)))"

definition create_relationship_edge ::
  "graph \<Rightarrow> pyobj \<Rightarrow> pyobj \<Rightarrow> RelationshipMetadata \<Rightarrow> world \<Rightarrow> (error + unit) \<times> world" where
  "create_relationship_edge g source_id target_id rel_meta w =
     (case build_relationship_create_query rel_meta source_id target_id of
        Inl err \<Rightarrow> (Inl err, w)
      | Inr q \<Rightarrow>
         (case graph_query g q w of
            (Inl err, w1) \<Rightarrow> (Inl err, w1)
          | (Inr rows, w1) \<Rightarrow> (Inr (), w1)))"

definition delete_relationship_edges ::
  "graph \<Rightarrow> pyobj \<Rightarrow> RelationshipMetadata \<Rightarrow> world \<Rightarrow> (error + unit) \<times> world" where
  "delete_relationship_edges g source_id rel_meta w =
     (case build_relationship_delete_query rel_meta source_id of
        Inl err \<Rightarrow> (Inl err, w)
      | Inr q \<Rightarrow>
         (case graph_query g q w of
            (Inl err, w1) \<Rightarrow> (Inl err, w1)
          | (Inr rows, w1) \<Rightarrow> (Inr (), w1)))"

text \<open>\<^verbatim>\<open>isinstance(rel_value, (LazyList, LazySingle))\<close> and
  \<^verbatim>\<open>isinstance(rel_value, (list, tuple))\<close>.\<close>

fun is_lazy_proxy :: "pyobj \<Rightarrow> bool" where
  "is_lazy_proxy (PLazyList p) = True"
| "is_lazy_proxy (PLazySingle p) = True"
| "is_lazy_proxy v = False"

fun list_or_tuple_items :: "pyobj \<Rightarrow> pyobj list option" where
  "list_or_tuple_items (PList xs) = Some xs"
| "list_or_tuple_items (PTuple xs) = Some xs"
| "list_or_tuple_items v = None"

fun type_name :: "pyobj \<Rightarrow> string" where
  "type_name PNone = ''NoneType''"
| "type_name (PInt i) = ''int''"
| "type_name (PStr s) = ''str''"
| "type_name (PBool b) = ''bool''"
| "type_name (PEntity r) = ''object''"
| "type_name (PList xs) = ''list''"
| "type_name (PTuple xs) = ''tuple''"
| "type_name (PLazyList p) = ''LazyList''"
| "type_name (PLazySingle p) = ''LazySingle''"
| "type_name (PNode i l ps) = ''Node''"
| "type_name (POther t) = t"

text \<open>
  \<^verbatim>\<open>Repository.save\<close> and the engine it calls are mutually recursive: a cascade builds a
  new repository for the target and saves through it.  The engine's functions therefore
  take that nested \<^verbatim>\<open>Repository.save\<close> as their first argument \<open>save\<close>, and
  \<open>Repository_save\<close> ties the knot below.  A result \<open>None\<close> means that the nesting of saves
  went deeper than the bound given to \<open>Repository_save\<close>.
\<close>

type_synonym save_fn =
  "Repository \<Rightarrow> ref \<Rightarrow> world \<Rightarrow> ((error + ref) \<times> Repository \<times> world) option"

definition get_or_save_related_entity ::
  "save_fn \<Rightarrow> Runtime \<Rightarrow> pyobj \<Rightarrow> RelationshipMetadata \<Rightarrow> world
     \<Rightarrow> ((error + pyobj) \<times> world) option" where
  "get_or_save_related_entity save rt entity rel_meta w =
     (case entity of
        PNone \<Rightarrow> Some (Inr PNone, w)
      | PEntity r \<Rightarrow>
         (case get_entity_metadata rt (cls (heap w r)) of
            Inl err \<Rightarrow> Some (Inl err, w)
          | Inr entity_metadata \<Rightarrow>
             (case id_property entity_metadata of
                None \<Rightarrow> Some (Inr PNone, w)
              | Some idp \<Rightarrow>
                 (let entity_id = getattr (heap w r) (prop_python_name idp) in
                  if entity_id \<noteq> PNone then Some (Inr entity_id, w)
                  else if cascade rel_meta
                  then (case Repository_init rt (cls (heap w r)) of
                          Inl err \<Rightarrow> Some (Inl err, w)
                        | Inr target_repo \<Rightarrow>
                           (case save target_repo r w of
                              None \<Rightarrow> None
                            | Some (Inl err, repo', w') \<Rightarrow> Some (Inl err, w')
                            | Some (Inr saved_entity, repo', w') \<Rightarrow>
                                Some (Inr (getattr (heap w' saved_entity)
                                             (prop_python_name idp)), w')))
                  else Some (Inr PNone, w))))
      | other \<Rightarrow> Some (Inl (InvalidEntityException (type_name other)), w))"

text \<open>The two lines that the collection branch runs for every element and the single
  branch runs once: resolve the target, then create the edge if an id came back.\<close>

definition save_related_entity ::
  "save_fn \<Rightarrow> Runtime \<Rightarrow> graph \<Rightarrow> pyobj \<Rightarrow> RelationshipMetadata \<Rightarrow> pyobj \<Rightarrow> world
     \<Rightarrow> ((error + unit) \<times> world) option" where
  "save_related_entity save rt g source_id rel_meta related_entity w =
     (case get_or_save_related_entity save rt related_entity rel_meta w of
        None \<Rightarrow> None
      | Some (Inl err, w') \<Rightarrow> Some (Inl err, w')
      | Some (Inr target_id, w') \<Rightarrow>
          if target_id \<noteq> PNone
          then Some (create_relationship_edge g source_id target_id rel_meta w')
          else Some (Inr (), w'))"

fun save_related_entities ::
  "save_fn \<Rightarrow> Runtime \<Rightarrow> graph \<Rightarrow> pyobj \<Rightarrow> RelationshipMetadata \<Rightarrow> pyobj list \<Rightarrow> world
     \<Rightarrow> ((error + unit) \<times> world) option" where
  "save_related_entities save rt g source_id rel_meta [] w = Some (Inr (), w)"
| "save_related_entities save rt g source_id rel_meta (related_entity # rest) w =
     (case save_related_entity save rt g source_id rel_meta related_entity w of
        None \<Rightarrow> None
      | Some (Inl err, w') \<Rightarrow> Some (Inl err, w')
      | Some (Inr u, w') \<Rightarrow> save_related_entities save rt g source_id rel_meta rest w')"

text \<open>One iteration of the loop over \<^verbatim>\<open>metadata.relationships\<close>.\<close>

definition save_relationship ::
  "save_fn \<Rightarrow> Runtime \<Rightarrow> graph \<Rightarrow> ref \<Rightarrow> pyobj \<Rightarrow> bool \<Rightarrow> RelationshipMetadata \<Rightarrow> world
     \<Rightarrow> ((error + unit) \<times> world) option" where
  "save_relationship save rt g source_entity source_id is_update rel_meta w =
     (let rel_value = getattr (heap w source_entity) (rel_python_name rel_meta) in
      if rel_value = PNone then Some (Inr (), w)
      else if is_lazy_proxy rel_value then Some (Inr (), w)
      else (case (if is_update then delete_relationship_edges g source_id rel_meta w
                  else (Inr (), w)) of
              (Inl err, w1) \<Rightarrow> Some (Inl err, w1)
            | (Inr u, w1) \<Rightarrow>
                if is_collection rel_meta
                then (case list_or_tuple_items rel_value of
                        None \<Rightarrow> Some (Inr (), w1)
                      | Some related \<Rightarrow>
                          save_related_entities save rt g source_id rel_meta related w1)
                else save_related_entity save rt g source_id rel_meta rel_value w1))"

fun save_relationships_loop ::
  "save_fn \<Rightarrow> Runtime \<Rightarrow> graph \<Rightarrow> ref \<Rightarrow> pyobj \<Rightarrow> bool \<Rightarrow> RelationshipMetadata list \<Rightarrow> world
     \<Rightarrow> ((error + unit) \<times> world) option" where
  "save_relationships_loop save rt g source_entity source_id is_update [] w = Some (Inr (), w)"
| "save_relationships_loop save rt g source_entity source_id is_update (rel_meta # rest) w =
     (case save_relationship save rt g source_entity source_id is_update rel_meta w of
        None \<Rightarrow> None
      | Some (Inl err, w') \<Rightarrow> Some (Inl err, w')
      | Some (Inr u, w') \<Rightarrow>
          save_relationships_loop save rt g source_entity source_id is_update rest w')"

text \<open>\<^verbatim>\<open>RelationshipManager.save_relationships\<close>: the key is added to
  \<^verbatim>\<open>self._entity_tracker\<close> before the loop and discarded in the \<^verbatim>\<open>finally\<close> block, on
  return and on error alike.\<close>

definition save_relationships ::
  "save_fn \<Rightarrow> Runtime \<Rightarrow> graph \<Rightarrow> RelationshipManager \<Rightarrow> ref \<Rightarrow> pyobj \<Rightarrow> EntityMetadata
     \<Rightarrow> bool \<Rightarrow> world \<Rightarrow> ((error + unit) \<times> RelationshipManager \<times> world) option" where
  "save_relationships save rt g mgr source_entity source_id md is_update w =
     (let entity_key = (source_entity, source_id) in
      if entity_key \<in> entity_tracker mgr then Some (Inr (), mgr, w)
      else (case save_relationships_loop save rt g source_entity source_id is_update
                   (relationships md) w of
              None \<Rightarrow> None
            | Some (r, w') \<Rightarrow>
                Some (r, mgr\<lparr>entity_tracker :=
                              insert entity_key (entity_tracker mgr) - {entity_key}\<rparr>, w')))"

text \<open>The body of \<^verbatim>\<open>Repository.save\<close>.  \<^verbatim>\<open>save_relationships\<close> is called without
  \<^verbatim>\<open>is_update\<close>, which therefore takes its default \<^verbatim>\<open>False\<close>; every exception raised
  inside the \<^verbatim>\<open>try\<close> block is re-raised as a \<^verbatim>\<open>QueryException\<close>.\<close>

definition Repository_save_body ::
  "save_fn \<Rightarrow> Runtime \<Rightarrow> graph \<Rightarrow> Repository \<Rightarrow> ref \<Rightarrow> world
     \<Rightarrow> ((error + ref) \<times> Repository \<times> world) option" where
  "Repository_save_body save rt g repo e w =
     (let has_id = (case id_property (metadata repo) of
                      None \<Rightarrow> False
                    | Some idp \<Rightarrow> getattr (heap w e) (prop_python_name idp) \<noteq> PNone)
      in case (if has_id then map_to_cypher_merge rt (heap w e)
               else map_to_cypher_create rt (heap w e)) of
           Inl err \<Rightarrow> Some (Inl (QueryException err), repo, w)
         | Inr q \<Rightarrow>
            (case graph_query g q w of
               (Inl err, w1) \<Rightarrow> Some (Inl (QueryException err), repo, w1)
             | (Inr [], w1) \<Rightarrow> Some (Inr e, repo, w1)
             | (Inr (record # others), w1) \<Rightarrow>
                (case row_index record 1 of
                   Inl err \<Rightarrow> Some (Inl (QueryException err), repo, w1)
                 | Inr node_id \<Rightarrow>
                    (case (if \<not> has_id \<and> id_property (metadata repo) \<noteq> None
                           then update_entity_id rt e node_id w1 else Inr w1) of
                       Inl err \<Rightarrow> Some (Inl (QueryException err), repo, w1)
                     | Inr w2 \<Rightarrow>
                        if relationships (metadata repo) \<noteq> []
                        then (case save_relationships save rt g (relationship_manager repo)
                                     e node_id (metadata repo) False w2 of
                                None \<Rightarrow> None
                              | Some (Inl err, mgr, w3) \<Rightarrow>
                                  Some (Inl (QueryException err),
                                        repo\<lparr>relationship_manager := mgr\<rparr>, w3)
                              | Some (Inr u, mgr, w3) \<Rightarrow>
                                  Some (Inr e, repo\<lparr>relationship_manager := mgr\<rparr>, w3))
                        else Some (Inr e, repo, w2)))))"

primrec Repository_save ::
  "nat \<Rightarrow> Runtime \<Rightarrow> graph \<Rightarrow> Repository \<Rightarrow> ref \<Rightarrow> world
     \<Rightarrow> ((error + ref) \<times> Repository \<times> world) option" where
  "Repository_save 0 rt g repo e w = None"
| "Repository_save (Suc n) rt g repo e w =
     Repository_save_body (Repository_save n rt g) rt g repo e w"

section \<open>Hydrating entities (\<^verbatim>\<open>mapper.py\<close>)\<close>

definition LazyList_init :: "int \<Rightarrow> RelationshipMetadata \<Rightarrow> class_name \<Rightarrow> LazyList" where
  "LazyList_init source_id relationship_meta entity_cls =
     \<lparr>ll_source_id = source_id, ll_relationship_meta = relationship_meta,
      ll_entity_class = entity_cls, ll_loaded = False, ll_items = []\<rparr>"

















section \<open>The collection loading proxy (\<^verbatim>\<open>relationships.py\<close>)\<close>








section \<open>Finding entities (\<^verbatim>\<open>query_builder.py\<close>, \<^verbatim>\<open>repository.py\<close>)\<close>












section \<open>A reference graph store\<close>

text \<open>
  The store itself is outside the repository.  \<open>falkor\<close> is a small reference store that
  never raises and gives each statement form its Cypher reading: \<^verbatim>\<open>CREATE\<close> allocates the
  next internal id, \<^verbatim>\<open>MERGE (n:L {id: $id})\<close> matches a node of that label whose \<^verbatim>\<open>id\<close>
  property equals the parameter and creates one otherwise, and an edge is created only
  between two nodes that exist.  A node's labels are kept as the joined label string.
  An undirected pattern is stored in the orientation it is written in and matched in
  either.
\<close>

fun as_int :: "pyobj \<Rightarrow> int option" where
  "as_int (PInt i) = Some i"
| "as_int v = None"

definition has_node :: "Store \<Rightarrow> int \<Rightarrow> bool" where
  "has_node s i = list_ex (\<lambda>n. fst n = i) (nodes s)"

fun node_props :: "set_clause list \<Rightarrow> dict \<Rightarrow> dict \<Rightarrow> dict" where
  "node_props [] params props = props"
| "node_props (SetParam k p # cs) params props =
     node_props cs params (AList.update k (dict_get params p PNone) props)"
| "node_props (SetInterned k p # cs) params props =
     node_props cs params (AList.update k (dict_get params p PNone) props)"

fun oriented :: "rel_pattern \<Rightarrow> int \<Rightarrow> int \<Rightarrow> int \<times> string \<times> int" where
  "oriented (Outgoing t) a b = (a, t, b)"
| "oriented (Incoming t) a b = (b, t, a)"
| "oriented (Undirected t) a b = (a, t, b)"

fun edge_matches :: "rel_pattern \<Rightarrow> int \<Rightarrow> int \<times> string \<times> int \<Rightarrow> bool" where
  "edge_matches (Outgoing t) a (x, t', y) = (x = a \<and> t' = t)"
| "edge_matches (Incoming t) a (x, t', y) = (y = a \<and> t' = t)"
| "edge_matches (Undirected t) a (x, t', y) = ((x = a \<or> y = a) \<and> t' = t)"

fun other_end :: "rel_pattern \<Rightarrow> int \<times> string \<times> int \<Rightarrow> int" where
  "other_end (Outgoing t) (x, t', y) = y"
| "other_end (Incoming t) (x, t', y) = x"
| "other_end (Undirected t) (x, t', y) = y"

definition node_cell :: "int \<times> string \<times> dict \<Rightarrow> pyobj" where
  "node_cell n = (case n of (i, l, ps) \<Rightarrow> PNode (Some i) l ps)"

definition related_nodes ::
  "Store \<Rightarrow> rel_pattern \<Rightarrow> string \<Rightarrow> int \<Rightarrow> (int \<times> string \<times> dict) list" where
  "related_nodes s pat target_labels a =
     concat (map (\<lambda>e. if edge_matches pat a e
                        then filter (\<lambda>n. fst n = other_end pat e \<and> fst (snd n) = target_labels)
                               (nodes s)
                        else [])
                 (edges s))"

definition new_node :: "Store \<Rightarrow> string \<Rightarrow> dict \<Rightarrow> (error + row list) \<times> Store" where
  "new_node s lbls ps =
     (let i = next_id s in
      (Inr [ListRecord [PNode (Some i) lbls ps, PInt i]],
       s\<lparr>nodes := nodes s @ [(i, lbls, ps)], next_id := i + 1\<rparr>))"

fun falkor :: graph where
  "falkor (CreateNode lbls sets, params) s = new_node s lbls (node_props sets params [])"
| "falkor (MergeNode lbls sets, params) s =
     (let wanted = dict_get params ''id'' PNone in
      case find (\<lambda>n. fst (snd n) = lbls \<and> map_of (snd (snd n)) ''id'' = Some wanted) (nodes s) of
        Some (i, l, ps) \<Rightarrow>
          (let ps' = node_props sets params ps in
           (Inr [ListRecord [PNode (Some i) l ps', PInt i]],
            s\<lparr>nodes := map (\<lambda>n. if fst n = i then (i, l, ps') else n) (nodes s)\<rparr>))
      | None \<Rightarrow> new_node s lbls (node_props sets params [(''id'', wanted)]))"
| "falkor (CreateEdge pat, params) s =
     (case (as_int (dict_get params ''source_id'' PNone),
            as_int (dict_get params ''target_id'' PNone)) of
        (Some a, Some b) \<Rightarrow>
          if has_node s a \<and> has_node s b
          then (Inr [], s\<lparr>edges := edges s @ [oriented pat a b]\<rparr>)
          else (Inr [], s)
      | other \<Rightarrow> (Inr [], s))"
| "falkor (DeleteEdges pat, params) s =
     (case as_int (dict_get params ''source_id'' PNone) of
        Some a \<Rightarrow> (Inr [], s\<lparr>edges := filter (\<lambda>e. \<not> edge_matches pat a e) (edges s)\<rparr>)
      | None \<Rightarrow> (Inr [], s))"
| "falkor (MatchRelated pat target_labels, params) s =
     (case as_int (dict_get params ''source_id'' PNone) of
        Some a \<Rightarrow> (Inr (map (\<lambda>n. ListRecord [node_cell n]) (related_nodes s pat target_labels a)), s)
      | None \<Rightarrow> (Inr [], s))"
| "falkor (MatchById lbls internal, params) s =
     (let wanted = dict_get params ''id'' PNone in
      (Inr (map (\<lambda>n. ListRecord [node_cell n])
              (filter (\<lambda>n. fst (snd n) = lbls \<and>
                           (if internal then Some (fst n) = as_int wanted
                            else map_of (snd (snd n)) ''id'' = Some wanted))
                 (nodes s))), s))"
| "falkor (MatchAll lbls, params) s =
     (Inr (map (\<lambda>n. ListRecord [node_cell n]) (filter (\<lambda>n. fst (snd n) = lbls) (nodes s))), s)"
| "falkor (EagerLoad lbls wh opts rets, params) s =
     (let wanted = dict_get params ''id'' PNone in
      (Inr (map (\<lambda>n. ListRecord
                   (node_cell n #
                    map (\<lambda>opt. PList (map node_cell
                                  (remdups (related_nodes s (fst (snd opt)) (snd (snd opt)) (fst n)))))
                        opts))
              (filter (\<lambda>n. fst (snd n) = lbls \<and>
                           (case wh of
                              None \<Rightarrow> True
                            | Some internal \<Rightarrow>
                                if internal then Some (fst n) = as_int wanted
                                else map_of (snd (snd n)) ''id'' = Some wanted))
                 (nodes s))), s))"

section \<open>Example entities\<close>

text \<open>
  The metadata the \<^verbatim>\<open>@node\<close> decorator builds for the classes of the test suite:
  \<^verbatim>\<open>id: Optional[int] = generated_id()\<close> (whose \<^verbatim>\<open>id_generator\<close> is the descriptor's
  \<^verbatim>\<open>generator\<close>, \<^verbatim>\<open>None\<close> by default), \<^verbatim>\<open>name: str\<close>, and
  \<^verbatim>\<open>friends: List["Person"] = relationship("KNOWS", target="Person", cascade=True)\<close>, a
  forward reference whose target class stays unresolved.
\<close>

definition ex_id :: PropertyMetadata where
  "ex_id = \<lparr>prop_python_name = ''id'', graph_name = ''id'', python_type = ''Optional[int]'',
            converter = None, required = False, is_id = True, id_generator = None,
            interned = False\<rparr>"

definition ex_name :: PropertyMetadata where
  "ex_name = \<lparr>prop_python_name = ''name'', graph_name = ''name'', python_type = ''str'',
              converter = None, required = False, is_id = False, id_generator = None,
              interned = False\<rparr>"

definition ex_friends :: RelationshipMetadata where
  "ex_friends = \<lparr>rel_python_name = ''friends'', relationship_type = ''KNOWS'',
                 direction = ''OUTGOING'', target_class = None,
                 target_class_name = Some ''Person'', is_collection = True, lazy = True,
                 cascade = True\<rparr>"

definition ex_Person :: EntityMetadata where
  "ex_Person = \<lparr>entity_class = ''Person'', labels = [''Person''], primary_label = ''Person'',
                properties = [ex_id, ex_name], id_property = Some ex_id,
                relationships = [ex_friends]\<rparr>"

text \<open>\<^verbatim>\<open>NonCascadePerson\<close> of \<^verbatim>\<open>test_cascade_save.py\<close>: the same with \<^verbatim>\<open>cascade=False\<close>.\<close>

definition ex_friends_no_cascade :: RelationshipMetadata where
  "ex_friends_no_cascade =
     ex_friends\<lparr>target_class_name := Some ''NonCascadePerson'', cascade := False\<rparr>"

definition ex_NonCascadePerson :: EntityMetadata where
  "ex_NonCascadePerson =
     \<lparr>entity_class = ''NonCascadePerson'', labels = [''NonCascadePerson''],
      primary_label = ''NonCascadePerson'', properties = [ex_id, ex_name],
      id_property = Some ex_id, relationships = [ex_friends_no_cascade]\<rparr>"

text \<open>\<^verbatim>\<open>Company\<close> of \<^verbatim>\<open>test_eager_loading.py\<close>, with
  \<^verbatim>\<open>employees: List[Person] = relationship("WORKS_FOR", target=Person, direction="INCOMING")\<close>,
  whose target class is resolved.\<close>

definition ex_employees :: RelationshipMetadata where
  "ex_employees = \<lparr>rel_python_name = ''employees'', relationship_type = ''WORKS_FOR'',
                   direction = ''INCOMING'', target_class = Some ''Person'',
                   target_class_name = Some ''Person'', is_collection = True, lazy = True,
                   cascade = False\<rparr>"

definition ex_Company :: EntityMetadata where
  "ex_Company = \<lparr>entity_class = ''Company'', labels = [''Company''], primary_label = ''Company'',
                 properties = [ex_id, ex_name], id_property = Some ex_id,
                 relationships = [ex_employees]\<rparr>"

definition ex_runtime :: Runtime where
  "ex_runtime =
     \<lparr>node_metadata = (\<lambda>c. if c = ''Person'' then Some ex_Person
                           else if c = ''NonCascadePerson'' then Some ex_NonCascadePerson
                           else if c = ''Company'' then Some ex_Company
                           else None),
      to_graph = (\<lambda>prop v. v), from_graph = (\<lambda>prop v. v),
      init_raises = (\<lambda>c kwargs. False)\<rparr>"

text \<open>An instance with a name and a value of its \<^verbatim>\<open>friends\<close> field, no id yet.\<close>

definition ex_entity :: "class_name \<Rightarrow> string \<Rightarrow> pyobj \<Rightarrow> Entity" where
  "ex_entity c n fr =
     \<lparr>cls = c, attrs = (\<lambda>a. if a = ''name'' then PStr n
                            else if a = ''friends'' then fr else PNone)\<rparr>"

definition empty_store :: Store where
  "empty_store = \<lparr>nodes = [], edges = [], next_id = 0\<rparr>"

text \<open>A world over an empty reference store, and an instance that already carries an id.\<close>

definition ex_world :: "(ref \<Rightarrow> Entity) \<Rightarrow> world" where
  "ex_world h = \<lparr>heap = h, next_ref = 10, store = empty_store, queries = []\<rparr>"

definition ex_saved :: "class_name \<Rightarrow> string \<Rightarrow> int \<Rightarrow> pyobj \<Rightarrow> Entity" where
  "ex_saved c n i fr = setattr (ex_entity c n fr) ''id'' (PInt i)"

text \<open>Alice (object 0, id 0) with a given value of \<^verbatim>\<open>friends\<close>, and Bob (id 1); a
  collection proxy of Alice's that has loaded Bob.\<close>

definition ex_heap2 :: "pyobj \<Rightarrow> ref \<Rightarrow> Entity" where
  "ex_heap2 fr = (\<lambda>r. if r = 0 then ex_saved ''Person'' ''Alice'' 0 fr
                        else ex_saved ''Person'' ''Bob'' 1 PNone)"

definition ex_loaded_friends :: LazyList where
  "ex_loaded_friends =
     (LazyList_init 0 ex_friends ''Person'')\<lparr>ll_loaded := True, ll_items := [1]\<rparr>"

section \<open>Reading the journal\<close>

text \<open>
  \<open>stems_from err e\<close>: \<open>err\<close> is \<open>e\<close> itself or \<open>e\<close> under one or more \<^verbatim>\<open>QueryException\<close>
  wrappers (\<^verbatim>\<open>raise QueryException(...) from e\<close>).
\<close>

fun stems_from :: "error \<Rightarrow> error \<Rightarrow> bool" where
  "stems_from (QueryException c) e = (QueryException c = e \<or> stems_from c e)"
| "stems_from err e = (err = e)"



definition error_of :: "error + 'a \<Rightarrow> error option" where
  "error_of r = (case r of Inl e \<Rightarrow> Some e | Inr v \<Rightarrow> None)"




text \<open>\<^verbatim>\<open>Repository(graph, Person)\<close>, and the same repository with a key left in its
  manager's \<^verbatim>\<open>_entity_tracker\<close>.\<close>

definition ex_Person_repo :: Repository where
  "ex_Person_repo = \<lparr>repo_entity_class = ''Person'', metadata = ex_Person,
                     relationship_manager = RelationshipManager_init\<rparr>"

definition ex_Person_repo_tracking :: Repository where
  "ex_Person_repo_tracking =
     ex_Person_repo\<lparr>relationship_manager := \<lparr>entity_tracker = {(0, PInt 0)}\<rparr>\<rparr>"


text \<open>Alice (object 0) with friends Bob and Carol (objects 1 and 2), and Dave (object 3);
  none saved yet.\<close>

definition ex_family :: world where
  "ex_family =
     ex_world (\<lambda>r. if r = 0 then ex_entity ''Person'' ''Alice'' (PList [PEntity 1, PEntity 2])
                     else if r = 1 then ex_entity ''Person'' ''Bob'' PNone
                     else if r = 2 then ex_entity ''Person'' ''Carol'' PNone
                     else ex_entity ''Person'' ''Dave'' PNone)"

text \<open>\<^verbatim>\<open>entity.<name> = value\<close>\<close>

definition assign :: "ref \<Rightarrow> string \<Rightarrow> pyobj \<Rightarrow> world \<Rightarrow> world" where
  "assign e name v w = w\<lparr>heap := (heap w)(e := setattr (heap w e) name v)\<rparr>"

text \<open>Save Alice, set \<^verbatim>\<open>alice.friends = [dave]\<close>, save her again through the same
  repository: the edges after the first save, the statements of the second save, and the
  edges after it.\<close>

definition ex_resave ::
  "((int \<times> string \<times> int) list \<times> cypher list \<times> (int \<times> string \<times> int) list) option" where
  "ex_resave =
     (case Repository_save 2 ex_runtime falkor ex_Person_repo 0 ex_family of
        Some (Inr a, repo, w1) \<Rightarrow>
          (case Repository_save 2 ex_runtime falkor repo a
                  (assign a ''friends'' (PList [PEntity 3]) w1) of
             Some (Inr a', repo', w2) \<Rightarrow>
               Some (edges (store w1),
                     map (\<lambda>entry. fst (fst entry)) (drop (length (queries w1)) (queries w2)),
                     edges (store w2))
           | other \<Rightarrow> None)
      | other \<Rightarrow> None)"









section \<open>Relationship fields are never serialised\<close>

lemma map_to_properties_loop_keys:
  "k \<in> fst ` set (map_to_properties_loop rt md entity ps acc) \<Longrightarrow>
   k \<in> fst ` set acc \<or>
   (\<exists>p \<in> set ps. graph_name p = k \<and> \<not> is_relationship_field md (prop_python_name p)
        \<and> getattr entity (prop_python_name p) \<noteq> PNone)"
proof (induction ps arbitrary: acc)
  case Nil
  then show ?case by simp
next
  case (Cons p ps)
  show ?case
  proof (cases "is_relationship_field md (prop_python_name p)")
    case True
    with Cons.prems have "k \<in> fst ` set (map_to_properties_loop rt md entity ps acc)" by simp
    from Cons.IH [OF this] show ?thesis by auto
  next
    case notrel: False
    show ?thesis
    proof (cases "getattr entity (prop_python_name p) = PNone")
      case True
      with notrel Cons.prems
      have "k \<in> fst ` set (map_to_properties_loop rt md entity ps acc)"
        by (simp add: Let_def split: if_splits)
      from Cons.IH [OF this] show ?thesis by auto
    next
      case False
      with notrel Cons.prems
      have "k \<in> fst ` set (map_to_properties_loop rt md entity ps
               (AList.update (graph_name p)
                  (to_graph rt p (getattr entity (prop_python_name p))) acc))"
        by (simp add: Let_def split: if_splits)
      from Cons.IH [OF this] notrel False show ?thesis
        by (auto simp: dom_update)
    qed
  qed
qed

lemma update_entries:
  "(k', v') \<in> set (AList.update k v al) \<Longrightarrow> (k', v') = (k, v) \<or> (k', v') \<in> set al"
  by (induction al) (auto split: if_splits)

lemma map_to_properties_loop_entries:
  "(k, v) \<in> set (map_to_properties_loop rt md entity ps acc) \<Longrightarrow>
   (k, v) \<in> set acc \<or>
   (\<exists>p \<in> set ps. graph_name p = k \<and> \<not> is_relationship_field md (prop_python_name p)
        \<and> v = to_graph rt p (getattr entity (prop_python_name p)))"
proof (induction ps arbitrary: acc)
  case Nil
  then show ?case by simp
next
  case (Cons p ps)
  let ?u = "AList.update (graph_name p) (to_graph rt p (getattr entity (prop_python_name p))) acc"
  from Cons.prems
  have "(k, v) \<in> set (map_to_properties_loop rt md entity ps acc)
        \<or> (\<not> is_relationship_field md (prop_python_name p)
            \<and> (k, v) \<in> set (map_to_properties_loop rt md entity ps ?u))"
    by (simp add: Let_def split: if_splits)
  then show ?case
  proof
    assume "(k, v) \<in> set (map_to_properties_loop rt md entity ps acc)"
    from Cons.IH [OF this] show ?thesis by auto
  next
    assume a: "\<not> is_relationship_field md (prop_python_name p)
               \<and> (k, v) \<in> set (map_to_properties_loop rt md entity ps ?u)"
    from Cons.IH [of ?u] a
    have "(k, v) \<in> set ?u \<or>
          (\<exists>q \<in> set ps. graph_name q = k \<and> \<not> is_relationship_field md (prop_python_name q)
             \<and> v = to_graph rt q (getattr entity (prop_python_name q)))"
      by blast
    with a show ?thesis
      by (auto dest!: update_entries)
  qed
qed

lemma dict_lookup_entry:
  "dict_has props a \<or> dict_has props b \<Longrightarrow>
   \<exists>k. (k, dict_get props b (dict_get props a PNone)) \<in> set props"
  by (auto simp: dict_has_def dict_get_def split: option.splits dest: map_of_SomeD)

lemma set_clauses_loop_params:
  "(pn, v) \<in> set (snd (set_clauses_loop skip props ps acc)) \<Longrightarrow>
   (pn, v) \<in> set (snd acc) \<or> (\<exists>k. (k, v) \<in> set props)"
proof (induction ps arbitrary: acc)
  case Nil
  then show ?case by simp
next
  case (Cons p ps)
  obtain sc params where acc: "acc = (sc, params)" by (cases acc)
  let ?v = "dict_get props (graph_name p) (dict_get props (prop_python_name p) PNone)"
  let ?acc' = "(sc @ [set_clause_for p ?v], AList.update (''prop_'' @ graph_name p) ?v params)"
  from Cons.prems acc
  have "(pn, v) \<in> set (snd (set_clauses_loop skip props ps acc))
        \<or> ((dict_has props (prop_python_name p) \<or> dict_has props (graph_name p))
            \<and> (pn, v) \<in> set (snd (set_clauses_loop skip props ps ?acc')))"
    by (simp add: Let_def split: if_splits)
  then show ?case
  proof
    assume "(pn, v) \<in> set (snd (set_clauses_loop skip props ps acc))"
    from Cons.IH [OF this] show ?thesis .
  next
    assume a: "(dict_has props (prop_python_name p) \<or> dict_has props (graph_name p))
               \<and> (pn, v) \<in> set (snd (set_clauses_loop skip props ps ?acc'))"
    then have "(pn, v) \<in> set (snd ?acc') \<or> (\<exists>k. (k, v) \<in> set props)"
      using Cons.IH [of ?acc'] by blast
    moreover from a have "\<exists>k. (k, ?v) \<in> set props"
      using dict_lookup_entry by blast
    ultimately show ?thesis
      using acc by (auto dest!: update_entries)
  qed
qed

text \<open>
  C9.  Serialising an entity never reads a relationship field.  Every entry of the
  property map that \<open>map_to_properties\<close> returns is the converted value of a property
  whose Python name is not a relationship field; and every parameter of the generated
  \<^verbatim>\<open>CREATE\<close> statement, and every parameter of the \<^verbatim>\<open>MERGE\<close> statement other than the
  matched \<^verbatim>\<open>id\<close>, is one of those values.
\<close>

theorem map_to_properties_excludes_relationships:
  assumes "node_metadata rt (cls entity) = Some md"
  shows "(\<forall>props. map_to_properties rt entity = Inr props \<longrightarrow>
            (\<forall>(k, v) \<in> set props.
               \<exists>p \<in> set (properties md).
                 graph_name p = k \<and> \<not> is_relationship_field md (prop_python_name p)
                 \<and> v = to_graph rt p (getattr entity (prop_python_name p))))
       \<and> (\<forall>c params. map_to_cypher_create rt entity = Inr (c, params) \<longrightarrow>
            (\<forall>(pn, v) \<in> set params.
               \<exists>p \<in> set (properties md).
                 \<not> is_relationship_field md (prop_python_name p)
                 \<and> v = to_graph rt p (getattr entity (prop_python_name p))))
       \<and> (\<forall>c params. map_to_cypher_merge rt entity = Inr (c, params) \<longrightarrow>
            (\<forall>(pn, v) \<in> set params.
               (pn = ''id'' \<and> (\<exists>idp. id_property md = Some idp
                                  \<and> v = getattr entity (prop_python_name idp)))
               \<or> (\<exists>p \<in> set (properties md).
                     \<not> is_relationship_field md (prop_python_name p)
                     \<and> v = to_graph rt p (getattr entity (prop_python_name p)))))"
proof -
  let ?props = "map_to_properties_loop rt md entity (properties md) []"
  have mp: "map_to_properties rt entity = Inr ?props"
    using assms by (simp add: map_to_properties_def get_entity_metadata_def)
  have entries: "\<exists>p \<in> set (properties md).
        graph_name p = k \<and> \<not> is_relationship_field md (prop_python_name p)
        \<and> v = to_graph rt p (getattr entity (prop_python_name p))"
    if "(k, v) \<in> set ?props" for k v
    using map_to_properties_loop_entries [OF that] by simp
  have one: "\<forall>props. map_to_properties rt entity = Inr props \<longrightarrow>
            (\<forall>(k, v) \<in> set props.
               \<exists>p \<in> set (properties md).
                 graph_name p = k \<and> \<not> is_relationship_field md (prop_python_name p)
                 \<and> v = to_graph rt p (getattr entity (prop_python_name p)))"
    using mp entries by auto
  have two: "\<forall>c params. map_to_cypher_create rt entity = Inr (c, params) \<longrightarrow>
            (\<forall>(pn, v) \<in> set params.
               \<exists>p \<in> set (properties md).
                 \<not> is_relationship_field md (prop_python_name p)
                 \<and> v = to_graph rt p (getattr entity (prop_python_name p)))"
  proof (intro allI impI)
    fix c params
    assume "map_to_cypher_create rt entity = Inr (c, params)"
    then have params: "params = snd (set_clauses_loop False ?props (properties md) ([], []))"
      using assms mp
      by (auto simp: map_to_cypher_create_def get_entity_metadata_def split: prod.splits)
    show "\<forall>(pn, v) \<in> set params.
               \<exists>p \<in> set (properties md).
                 \<not> is_relationship_field md (prop_python_name p)
                 \<and> v = to_graph rt p (getattr entity (prop_python_name p))"
    proof (clarify)
      fix pn v
      assume "(pn, v) \<in> set params"
      with params set_clauses_loop_params [of pn v False ?props "properties md" "([], [])"]
      obtain k where "(k, v) \<in> set ?props" by auto
      from entries [OF this]
      show "\<exists>p \<in> set (properties md).
                 \<not> is_relationship_field md (prop_python_name p)
                 \<and> v = to_graph rt p (getattr entity (prop_python_name p))"
        by blast
    qed
  qed
  have three: "\<forall>c params. map_to_cypher_merge rt entity = Inr (c, params) \<longrightarrow>
            (\<forall>(pn, v) \<in> set params.
               (pn = ''id'' \<and> (\<exists>idp. id_property md = Some idp
                                  \<and> v = getattr entity (prop_python_name idp)))
               \<or> (\<exists>p \<in> set (properties md).
                     \<not> is_relationship_field md (prop_python_name p)
                     \<and> v = to_graph rt p (getattr entity (prop_python_name p))))"
  proof (intro allI impI)
    fix c params
    assume m: "map_to_cypher_merge rt entity = Inr (c, params)"
    then obtain idp where idp: "id_property md = Some idp"
      using assms
      by (auto simp: map_to_cypher_merge_def get_entity_metadata_def split: option.splits)
    from m idp have params: "params = snd (set_clauses_loop True ?props (properties md)
                  ([], [(''id'', getattr entity (prop_python_name idp))]))"
      using assms mp
      by (auto simp: map_to_cypher_merge_def get_entity_metadata_def Let_def
               split: prod.splits if_splits)
    show "\<forall>(pn, v) \<in> set params.
               (pn = ''id'' \<and> (\<exists>idp. id_property md = Some idp
                                  \<and> v = getattr entity (prop_python_name idp)))
               \<or> (\<exists>p \<in> set (properties md).
                     \<not> is_relationship_field md (prop_python_name p)
                     \<and> v = to_graph rt p (getattr entity (prop_python_name p)))"
    proof (clarify)
      fix pn v
      assume in_params: "(pn, v) \<in> set params"
        and no: "\<not> (\<exists>p \<in> set (properties md).
                     \<not> is_relationship_field md (prop_python_name p)
                     \<and> v = to_graph rt p (getattr entity (prop_python_name p)))"
      from in_params params
        set_clauses_loop_params [of pn v True ?props "properties md"
            "([], [(''id'', getattr entity (prop_python_name idp))])"]
      have "(pn, v) = (''id'', getattr entity (prop_python_name idp))
            \<or> (\<exists>k. (k, v) \<in> set ?props)"
        by auto
      with no entries idp
      show "pn = ''id'' \<and> (\<exists>idp. id_property md = Some idp
                                  \<and> v = getattr entity (prop_python_name idp))"
        by blast
    qed
  qed
  from one two three show ?thesis by blast
qed

theorem map_to_properties_excludes_relationships_witness:
  "map_to_properties ex_runtime (ex_entity ''Person'' ''Alice'' (PList [PEntity 1]))
     = Inr [(''name'', PStr ''Alice'')]
   \<and> (\<exists>p \<in> set (properties ex_Person).
          graph_name p = ''name'' \<and> \<not> is_relationship_field ex_Person (prop_python_name p)
          \<and> PStr ''Alice''
              = to_graph ex_runtime p
                  (getattr (ex_entity ''Person'' ''Alice'' (PList [PEntity 1]))
                     (prop_python_name p)))"
proof -
  have md: "node_metadata ex_runtime (cls (ex_entity ''Person'' ''Alice'' (PList [PEntity 1])))
            = Some ex_Person"
    by (simp add: ex_runtime_def ex_entity_def)
  have ser: "map_to_properties ex_runtime (ex_entity ''Person'' ''Alice'' (PList [PEntity 1]))
            = Inr [(''name'', PStr ''Alice'')]"
    by (simp add: map_to_properties_def get_entity_metadata_def ex_runtime_def ex_entity_def
          ex_Person_def ex_id_def ex_name_def ex_friends_def is_relationship_field_def
          getattr_def)
  from map_to_properties_excludes_relationships [OF md]
  have "\<forall>props. map_to_properties ex_runtime (ex_entity ''Person'' ''Alice'' (PList [PEntity 1]))
                   = Inr props \<longrightarrow>
            (\<forall>(k, v) \<in> set props.
               \<exists>p \<in> set (properties ex_Person).
                 graph_name p = k \<and> \<not> is_relationship_field ex_Person (prop_python_name p)
                 \<and> v = to_graph ex_runtime p
                         (getattr (ex_entity ''Person'' ''Alice'' (PList [PEntity 1]))
                            (prop_python_name p)))"
    by (rule conjunct1)
  then have "map_to_properties ex_runtime (ex_entity ''Person'' ''Alice'' (PList [PEntity 1]))
               = Inr [(''name'', PStr ''Alice'')] \<longrightarrow>
            (\<forall>(k, v) \<in> set [(''name'', PStr ''Alice'')].
               \<exists>p \<in> set (properties ex_Person).
                 graph_name p = k \<and> \<not> is_relationship_field ex_Person (prop_python_name p)
                 \<and> v = to_graph ex_runtime p
                         (getattr (ex_entity ''Person'' ''Alice'' (PList [PEntity 1]))
                            (prop_python_name p)))"
    by (rule spec)
  then have "\<forall>(k, v) \<in> set [(''name'', PStr ''Alice'')].
               \<exists>p \<in> set (properties ex_Person).
                 graph_name p = k \<and> \<not> is_relationship_field ex_Person (prop_python_name p)
                 \<and> v = to_graph ex_runtime p
                         (getattr (ex_entity ''Person'' ''Alice'' (PList [PEntity 1]))
                            (prop_python_name p))"
    using ser by (rule mp)
  then have "\<exists>p \<in> set (properties ex_Person).
          graph_name p = ''name'' \<and> \<not> is_relationship_field ex_Person (prop_python_name p)
          \<and> PStr ''Alice''
              = to_graph ex_runtime p
                  (getattr (ex_entity ''Person'' ''Alice'' (PList [PEntity 1]))
                     (prop_python_name p))"
    by (simp only: list.set ball_simps prod.case)
  with ser show ?thesis by (rule conjI)
qed

section \<open>Which relationship fields are processed\<close>

text \<open>
  C10.  For a MANY relationship whose field value is neither a list nor a tuple, a
  non-update pass over that field returns normally and leaves the whole world (objects,
  store, journal of statements) as it was: no statement is issued, no edge is created.
\<close>

theorem non_list_collection_ignored:
  assumes "is_collection rel_meta"
      and "list_or_tuple_items (getattr (heap w source_entity) (rel_python_name rel_meta)) = None"
  shows "save_relationship save rt g source_entity source_id False rel_meta w = Some (Inr (), w)"
  using assms by (simp add: save_relationship_def Let_def)

theorem non_list_collection_ignored_witness:
  "is_collection ex_friends
   \<and> save_relationship (Repository_save 1 ex_runtime falkor) ex_runtime falkor 0 (PInt 0) False
       ex_friends (ex_world (\<lambda>r. ex_saved ''Person'' ''Alice'' 0 (POther ''set'')))
     = Some (Inr (), ex_world (\<lambda>r. ex_saved ''Person'' ''Alice'' 0 (POther ''set'')))"
proof -
  have c: "is_collection ex_friends" by (simp add: ex_friends_def)
  have v: "list_or_tuple_items
             (getattr (heap (ex_world (\<lambda>r. ex_saved ''Person'' ''Alice'' 0 (POther ''set''))) 0)
                (rel_python_name ex_friends)) = None"
    by (simp add: ex_world_def ex_saved_def ex_entity_def ex_friends_def getattr_def setattr_def)
  from c non_list_collection_ignored [OF c v] show ?thesis by simp
qed

text \<open>
  C4, as the code has it.  A relationship field is skipped, with no statement issued and
  nothing changed, whenever its value is \<^verbatim>\<open>None\<close> or a loading proxy, whether or not the
  proxy has loaded.
\<close>

theorem unset_or_proxy_field_skipped:
  assumes "getattr (heap w source_entity) (rel_python_name rel_meta) = PNone
           \<or> is_lazy_proxy (getattr (heap w source_entity) (rel_python_name rel_meta))"
  shows "save_relationship save rt g source_entity source_id is_update rel_meta w = Some (Inr (), w)"
  using assms by (auto simp add: save_relationship_def Let_def)

theorem unset_or_proxy_field_skipped_witness:
  "is_lazy_proxy (getattr (heap (ex_world (ex_heap2 (PLazyList ex_loaded_friends))) 0)
                    (rel_python_name ex_friends))
   \<and> save_relationship (Repository_save 1 ex_runtime falkor) ex_runtime falkor 0 (PInt 0) True
       ex_friends (ex_world (ex_heap2 (PLazyList ex_loaded_friends)))
     = Some (Inr (), ex_world (ex_heap2 (PLazyList ex_loaded_friends)))"
proof -
  have p: "is_lazy_proxy (getattr (heap (ex_world (ex_heap2 (PLazyList ex_loaded_friends))) 0)
                            (rel_python_name ex_friends))"
    by (simp add: ex_world_def ex_heap2_def ex_saved_def ex_entity_def ex_friends_def
          getattr_def setattr_def)
  from p unset_or_proxy_field_skipped [OF disjI2, OF p] show ?thesis by simp
qed

text \<open>
  C4 as stated fails: a proxy that has loaded Bob is skipped like an unloaded one (no
  statement), while the ordinary list of the same items gets its edge statement.
\<close>

theorem loaded_proxy_counterexample:
  "ll_loaded ex_loaded_friends
   \<and> map_option (\<lambda>(r, w). (r, queries w))
       (save_relationship (Repository_save 1 ex_runtime falkor) ex_runtime falkor 0 (PInt 0) False
          ex_friends (ex_world (ex_heap2 (PLazyList ex_loaded_friends))))
     = Some (Inr (), [])
   \<and> map_option (\<lambda>(r, w). (r, queries w))
       (save_relationship (Repository_save 1 ex_runtime falkor) ex_runtime falkor 0 (PInt 0) False
          ex_friends (ex_world (ex_heap2 (PList (map PEntity (ll_items ex_loaded_friends))))))
     = Some (Inr (), [((CreateEdge (Outgoing ''KNOWS''),
                        [(''source_id'', PInt 0), (''target_id'', PInt 1)]), None)])"
  by (simp add: save_relationship_def Let_def ex_world_def ex_heap2_def ex_saved_def ex_entity_def
        ex_friends_def getattr_def setattr_def ex_loaded_friends_def LazyList_init_def
        save_related_entity_def get_or_save_related_entity_def get_entity_metadata_def
        ex_runtime_def ex_Person_def ex_id_def create_relationship_edge_def
        build_relationship_create_query_def rel_pattern_of_def graph_query_def empty_store_def
        dict_get_def has_node_def)

section \<open>What a run adds to the journal\<close>




lemma stems_from_wrap: "stems_from err e \<Longrightarrow> stems_from (QueryException err) e"
  by simp










lemma error_of_simps [simp]: "error_of (Inl e) = Some e" "error_of (Inr v) = None"
  by (simp_all add: error_of_def)























section \<open>The cycle guard\<close>





text \<open>The definitions a concrete run unfolds.\<close>

lemmas ex_defs = ex_world_def ex_heap2_def ex_saved_def ex_entity_def ex_friends_def
  ex_runtime_def ex_Person_def ex_id_def ex_name_def ex_Person_repo_def
  ex_Person_repo_tracking_def empty_store_def RelationshipManager_init_def

lemmas engine_defs = Repository_save_body_def save_relationships_def save_relationship_def
  save_related_entity_def get_or_save_related_entity_def get_entity_metadata_def
  create_relationship_edge_def build_relationship_create_query_def rel_pattern_of_def
  graph_query_def update_entity_id_def Repository_init_def
  map_to_cypher_create_def map_to_cypher_merge_def map_to_properties_def
  is_relationship_field_def set_clause_for_def dict_get_def dict_has_def
  getattr_def setattr_def Let_def


section \<open>Failures\<close>




section \<open>Cascading over a cycle\<close>






lemma has_node_append:
  "has_node (s\<lparr>nodes := nodes s @ [(i, l, ps)], next_id := k\<rparr>) j = (has_node s j \<or> j = i)"
  by (auto simp: has_node_def)





section \<open>Saving an entity again\<close>

text \<open>
  C1 at its own scenario.  Alice is saved with friends Bob and Carol, her \<^verbatim>\<open>friends\<close>
  field is set to Dave alone, and she is saved again.  The second save issues a
  \<^verbatim>\<open>MERGE\<close> for Alice, a \<^verbatim>\<open>CREATE\<close> for Dave and one edge statement, and no statement that
  deletes: \<^verbatim>\<open>Repository.save\<close> calls \<^verbatim>\<open>save_relationships\<close> without \<^verbatim>\<open>is_update\<close>.  The
  edges to Bob and Carol are still in the store afterwards.
\<close>

theorem resave_keeps_old_edges:
  "ex_resave = Some ([(0, ''KNOWS'', 1), (0, ''KNOWS'', 2)],
       [MergeNode ''Person'' [SetParam ''name'' ''prop_name''],
        CreateNode ''Person'' [SetParam ''name'' ''prop_name''],
        CreateEdge (Outgoing ''KNOWS'')],
       [(0, ''KNOWS'', 1), (0, ''KNOWS'', 2), (3, ''KNOWS'', 4)])"
  by (simp add: ex_resave_def ex_family_def assign_def ex_defs engine_defs new_node_def
        has_node_def numeral_2_eq_2)

section \<open>Targets that are not cascaded\<close>






section \<open>The collection proxy loads once\<close>







section \<open>One query for an eager load\<close>






end
